theory Spec2Isabelle
  imports Main "HOL-Library.Sublist"
begin

section \<open>Python values and exceptions\<close>

text \<open>
  A Python \<open>str\<close> is modelled by its UTF-8 encoding as a \<open>string\<close> (one \<open>char\<close> per
  byte); all literals of the program are ASCII. The values that \<open>json.loads\<close> can produce
  are the type \<open>pyval\<close>. A \<open>float\<close> is kept as the lexeme it was read from: none of the
  code below computes with it. A \<open>dict\<close> is an association list in insertion order whose
  keys are distinct.
\<close>

datatype pyval =
    PNone
  | PBool bool
  | PInt int
  | PFloat string
  | PStr string
  | PList "pyval list"
  | PDict "(string \<times> pyval) list"

text \<open>
  The exceptions that the modelled code raises or catches. All of them are subclasses of
  \<open>Exception\<close>; the messages they carry are only written to the log and are left out.
\<close>

datatype py_exception =
    JSONDecodeError
  | KeyError
  | AttributeError
  | TypeError
  | IndexError
  | RuntimeError
  | RateLimitError
  | APIConnectionError
  | APITimeoutError
  | OtherException string

fun dict_set :: "(string \<times> pyval) list \<Rightarrow> string \<Rightarrow> pyval \<Rightarrow> (string \<times> pyval) list" where
  "dict_set [] k v = [(k, v)]"
| "dict_set ((k', v') # d) k v = (if k' = k then (k', v) # d else (k', v') # dict_set d k v)"

definition dict_of_pairs :: "(string \<times> pyval) list \<Rightarrow> (string \<times> pyval) list" where
  "dict_of_pairs ps = foldl (\<lambda>d (k, v). dict_set d k v) [] ps"

definition dict_get :: "(string \<times> pyval) list \<Rightarrow> string \<Rightarrow> pyval \<Rightarrow> pyval" where
  "dict_get d k dflt = (case map_of d k of None \<Rightarrow> dflt | Some v \<Rightarrow> v)"

section \<open>The JSON decoder\<close>

text \<open>
  \<open>json.loads\<close> of the standard library, as a pushdown automaton that reads the text
  one character at a time: whitespace is space, tab, line feed and carriage return; the
  literals are \<open>null\<close>, \<open>true\<close>, \<open>false\<close>, \<open>NaN\<close>, \<open>Infinity\<close> and \<open>-Infinity\<close>;
  a string may not hold a control character; a later duplicate key replaces the value of
  an earlier one. Every rejection is a \<open>JSONDecodeError\<close>. The interpreter's resource
  limits (recursion depth, digits of an integer) are not part of the model.
\<close>

text \<open>
  The parts of a string literal: a character that stands for itself or comes from a
  two-character escape, and the number that an escape of \<open>u\<close> and four hexadecimal
  digits gives. An escaped high surrogate
  directly before an escaped low surrogate makes one code point with it; \<open>utf8\<close> encodes
  a code point, a lone surrogate in three bytes.
\<close>

datatype item = Lit char | Esc_u nat

definition utf8 :: "nat \<Rightarrow> string" where
  "utf8 n =
     (if n < 0x80 then [char_of n]
      else if n < 0x800 then [char_of (0xC0 + n div 0x40), char_of (0x80 + n mod 0x40)]
      else if n < 0x10000 then
        [char_of (0xE0 + n div 0x1000), char_of (0x80 + n div 0x40 mod 0x40),
         char_of (0x80 + n mod 0x40)]
      else
        [char_of (0xF0 + n div 0x40000), char_of (0x80 + n div 0x1000 mod 0x40),
         char_of (0x80 + n div 0x40 mod 0x40), char_of (0x80 + n mod 0x40)])"

definition high_surrogate :: "nat \<Rightarrow> bool" where
  "high_surrogate n = (0xD800 \<le> n \<and> n \<le> 0xDBFF)"

definition low_surrogate :: "nat \<Rightarrow> bool" where
  "low_surrogate n = (0xDC00 \<le> n \<and> n \<le> 0xDFFF)"

fun decode_items :: "item list \<Rightarrow> string" where
  "decode_items [] = []"
| "decode_items (Lit c # r) = c # decode_items r"
| "decode_items (Esc_u h # Esc_u l # r) =
     (if high_surrogate h \<and> low_surrogate l
      then utf8 (0x10000 + (h - 0xD800) * 0x400 + (l - 0xDC00)) @ decode_items r
      else utf8 h @ decode_items (Esc_u l # r))"
| "decode_items (Esc_u h # r) = utf8 h @ decode_items r"

text \<open>
  The states of the number grammar: an optional minus sign, an integer part without a
  leading zero, an optional fraction and an optional exponent. The automaton keeps the
  lexeme read so far beside them.
\<close>

datatype numstate = NMinus | NZero | NInt | NDot | NFrac | NExpMark | NExpSign | NExp

text \<open>
  The stack holds the containers that are still open: an array with its elements, an
  object with its pairs, and an object with the key whose value is being read.
\<close>

datatype frame =
    FArr "pyval list"
  | FObj "(string \<times> pyval) list"
  | FKey "(string \<times> pyval) list" string

text \<open>
  What the automaton expects next. A step that returns \<open>None\<close> rejects the text.
\<close>

datatype mode =
    ExpectValue
  | ExpectValueOrClose
  | ExpectKeyOrClose
  | ExpectKey
  | ExpectColon
  | AfterValue
  | Done pyval
  | InString bool "item list"
  | InEscape bool "item list"
  | InHex bool "item list" nat nat
  | InLiteral string pyval
  | InNumber numstate string

definition is_json_ws :: "char \<Rightarrow> bool" where
  "is_json_ws c = (c \<in> set [CHR 0x20, CHR 0x09, CHR 0x0A, CHR 0x0D])"

definition is_digit :: "char \<Rightarrow> bool" where
  "is_digit c = (c \<in> set ''0123456789'')"

definition hex_value :: "char \<Rightarrow> nat option" where
  "hex_value c =
     map_of (zip ''0123456789abcdef'' [0 ..< 16] @ zip ''ABCDEF'' [10 ..< 16]) c"

definition backslash :: "char \<Rightarrow> char option" where
  "backslash c =
     map_of [(CHR 0x22, CHR 0x22), (CHR 0x5C, CHR 0x5C), (CHR ''/'', CHR ''/''),
             (CHR ''b'', CHR 0x08), (CHR ''f'', CHR 0x0C), (CHR ''n'', CHR 0x0A),
             (CHR ''r'', CHR 0x0D), (CHR ''t'', CHR 0x09)] c"

definition digits_value :: "string \<Rightarrow> int" where
  "digits_value ds = foldl (\<lambda>n c. 10 * n + (of_char c - 48)) 0 ds"

definition int_of_lexeme :: "string \<Rightarrow> int" where
  "int_of_lexeme lexeme =
     (case lexeme of
        [] \<Rightarrow> 0
      | c # r \<Rightarrow> if c = CHR ''-'' then - digits_value r else digits_value lexeme)"

text \<open>A finished value goes to the innermost open container, or is the result.\<close>

fun complete :: "pyval \<Rightarrow> frame list \<Rightarrow> (mode \<times> frame list) option" where
  "complete v [] = Some (Done v, [])"
| "complete v (FArr xs # st) = Some (AfterValue, FArr (xs @ [v]) # st)"
| "complete v (FKey ps k # st) = Some (AfterValue, FObj (ps @ [(k, v)]) # st)"
| "complete v (FObj ps # st) = None"

text \<open>After a value: blanks, then a comma or the bracket that closes the container.\<close>

definition step_after :: "mode \<Rightarrow> frame list \<Rightarrow> char \<Rightarrow> (mode \<times> frame list) option" where
  "step_after m st c =
     (if is_json_ws c then Some (m, st)
      else case (m, st) of
          (AfterValue, FArr xs # st') \<Rightarrow>
            if c = CHR '','' then Some (ExpectValue, st)
            else if c = CHR '']'' then complete (PList xs) st'
            else None
        | (AfterValue, FObj ps # st') \<Rightarrow>
            if c = CHR '','' then Some (ExpectKey, st)
            else if c = CHR ''}'' then complete (PDict (dict_of_pairs ps)) st'
            else None
        | _ \<Rightarrow> None)"

text \<open>The first character of a value.\<close>

definition start_value :: "frame list \<Rightarrow> char \<Rightarrow> (mode \<times> frame list) option" where
  "start_value st c =
     (if c = CHR 0x22 then Some (InString False [], st)
      else if c = CHR ''{'' then Some (ExpectKeyOrClose, FObj [] # st)
      else if c = CHR ''['' then Some (ExpectValueOrClose, FArr [] # st)
      else if c = CHR ''n'' then Some (InLiteral ''ull'' PNone, st)
      else if c = CHR ''t'' then Some (InLiteral ''rue'' (PBool True), st)
      else if c = CHR ''f'' then Some (InLiteral ''alse'' (PBool False), st)
      else if c = CHR ''N'' then Some (InLiteral ''aN'' (PFloat ''NaN''), st)
      else if c = CHR ''I'' then Some (InLiteral ''nfinity'' (PFloat ''Infinity''), st)
      else if c = CHR ''-'' then Some (InNumber NMinus [c], st)
      else if c = CHR ''0'' then Some (InNumber NZero [c], st)
      else if is_digit c then Some (InNumber NInt [c], st)
      else None)"

text \<open>
  A number ends at the first character that cannot continue it; that character is then
  read as the one after a value. An integer lexeme gives an \<open>int\<close>, any other a
  \<open>float\<close>.
\<close>

definition finish_number :: "numstate \<Rightarrow> string \<Rightarrow> pyval option" where
  "finish_number ns lexeme =
     (case ns of
        NZero \<Rightarrow> Some (PInt (int_of_lexeme lexeme))
      | NInt \<Rightarrow> Some (PInt (int_of_lexeme lexeme))
      | NFrac \<Rightarrow> Some (PFloat lexeme)
      | NExp \<Rightarrow> Some (PFloat lexeme)
      | _ \<Rightarrow> None)"

definition end_number ::
  "numstate \<Rightarrow> string \<Rightarrow> frame list \<Rightarrow> char \<Rightarrow> (mode \<times> frame list) option" where
  "end_number ns lexeme st c =
     (case finish_number ns lexeme of
        None \<Rightarrow> None
      | Some v \<Rightarrow>
          (case complete v st of
             None \<Rightarrow> None
           | Some (m, st') \<Rightarrow> step_after m st' c))"

definition step_number ::
  "numstate \<Rightarrow> string \<Rightarrow> frame list \<Rightarrow> char \<Rightarrow> (mode \<times> frame list) option" where
  "step_number ns lexeme st c =
     (let is_e = (c = CHR ''e'' \<or> c = CHR ''E''); lexeme' = lexeme @ [c] in
      case ns of
        NMinus \<Rightarrow>
          if c = CHR ''0'' then Some (InNumber NZero lexeme', st)
          else if is_digit c then Some (InNumber NInt lexeme', st)
          else if c = CHR ''I'' then Some (InLiteral ''nfinity'' (PFloat ''-Infinity''), st)
          else None
      | NZero \<Rightarrow>
          if c = CHR ''.'' then Some (InNumber NDot lexeme', st)
          else if is_e then Some (InNumber NExpMark lexeme', st)
          else end_number ns lexeme st c
      | NInt \<Rightarrow>
          if is_digit c then Some (InNumber NInt lexeme', st)
          else if c = CHR ''.'' then Some (InNumber NDot lexeme', st)
          else if is_e then Some (InNumber NExpMark lexeme', st)
          else end_number ns lexeme st c
      | NDot \<Rightarrow> if is_digit c then Some (InNumber NFrac lexeme', st) else None
      | NFrac \<Rightarrow>
          if is_digit c then Some (InNumber NFrac lexeme', st)
          else if is_e then Some (InNumber NExpMark lexeme', st)
          else end_number ns lexeme st c
      | NExpMark \<Rightarrow>
          if c = CHR ''+'' \<or> c = CHR ''-'' then Some (InNumber NExpSign lexeme', st)
          else if is_digit c then Some (InNumber NExp lexeme', st)
          else None
      | NExpSign \<Rightarrow> if is_digit c then Some (InNumber NExp lexeme', st) else None
      | NExp \<Rightarrow>
          if is_digit c then Some (InNumber NExp lexeme', st)
          else end_number ns lexeme st c)"

text \<open>A closed string is a key of the innermost object or a value.\<close>

definition end_string :: "bool \<Rightarrow> string \<Rightarrow> frame list \<Rightarrow> (mode \<times> frame list) option" where
  "end_string is_key s st =
     (if is_key then
        (case st of FObj ps # st' \<Rightarrow> Some (ExpectColon, FKey ps s # st') | _ \<Rightarrow> None)
      else complete (PStr s) st)"

definition step :: "mode \<times> frame list \<Rightarrow> char \<Rightarrow> (mode \<times> frame list) option" where
  "step s c =
     (case s of (m, st) \<Rightarrow>
      (case m of
        ExpectValue \<Rightarrow> if is_json_ws c then Some (m, st) else start_value st c
      | ExpectValueOrClose \<Rightarrow>
          if is_json_ws c then Some (m, st)
          else if c = CHR '']'' then
            (case st of FArr xs # st' \<Rightarrow> complete (PList xs) st' | _ \<Rightarrow> None)
          else start_value st c
      | ExpectKeyOrClose \<Rightarrow>
          if is_json_ws c then Some (m, st)
          else if c = CHR ''}'' then
            (case st of FObj ps # st' \<Rightarrow> complete (PDict (dict_of_pairs ps)) st' | _ \<Rightarrow> None)
          else if c = CHR 0x22 then Some (InString True [], st)
          else None
      | ExpectKey \<Rightarrow>
          if is_json_ws c then Some (m, st)
          else if c = CHR 0x22 then Some (InString True [], st)
          else None
      | ExpectColon \<Rightarrow>
          if is_json_ws c then Some (m, st)
          else if c = CHR '':'' then Some (ExpectValue, st)
          else None
      | AfterValue \<Rightarrow> step_after m st c
      | Done v \<Rightarrow> step_after m st c
      | InString k items \<Rightarrow>
          if c = CHR 0x22 then end_string k (decode_items items) st
          else if c = CHR 0x5C then Some (InEscape k items, st)
          else if (of_char c :: nat) < 0x20 then None
          else Some (InString k (items @ [Lit c]), st)
      | InEscape k items \<Rightarrow>
          if c = CHR ''u'' then Some (InHex k items 4 0, st)
          else (case backslash c of
                  None \<Rightarrow> None
                | Some d \<Rightarrow> Some (InString k (items @ [Lit d]), st))
      | InHex k items n acc \<Rightarrow>
          (case hex_value c of
             None \<Rightarrow> None
           | Some h \<Rightarrow>
               if n \<le> 1 then Some (InString k (items @ [Esc_u (acc * 16 + h)]), st)
               else Some (InHex k items (n - 1) (acc * 16 + h), st))
      | InLiteral rest v \<Rightarrow>
          (case rest of
             [] \<Rightarrow> None
           | r # rs \<Rightarrow>
               if c \<noteq> r then None
               else if rs = [] then complete v st
               else Some (InLiteral rs v, st))
      | InNumber ns lexeme \<Rightarrow> step_number ns lexeme st c))"

text \<open>
  The run over the text, and the result at its end: the value, when nothing is left
  open; a number that reaches the end of the text ends there.
\<close>

fun run :: "(mode \<times> frame list) option \<Rightarrow> string \<Rightarrow> (mode \<times> frame list) option" where
  "run s [] = s"
| "run None (c # cs) = None"
| "run (Some s) (c # cs) = run (step s c) cs"

definition finalize :: "mode \<times> frame list \<Rightarrow> py_exception + pyval" where
  "finalize s =
     (case s of
        (Done v, []) \<Rightarrow> Inr v
      | (InNumber ns lexeme, []) \<Rightarrow>
          (case finish_number ns lexeme of None \<Rightarrow> Inl JSONDecodeError | Some v \<Rightarrow> Inr v)
      | _ \<Rightarrow> Inl JSONDecodeError)"

definition json_loads :: "string \<Rightarrow> py_exception + pyval" where
  "json_loads s =
     (case run (Some (ExpectValue, [])) s of
        None \<Rightarrow> Inl JSONDecodeError
      | Some st \<Rightarrow> finalize st)"

section \<open>Strings\<close>

text \<open>
  \<open>sep.join(xs)\<close>, and \<open>str.strip()\<close>: the latter removes, from both ends, every code
  point for which \<open>str.isspace\<close> holds. These are U+0009 to U+000D, U+001C to U+0020,
  U+0085, U+00A0, U+1680, U+2000 to U+200A, U+2028, U+2029, U+202F, U+205F and U+3000;
  \<open>py_whitespace\<close> lists their UTF-8 encodings.
\<close>

fun str_join :: "string \<Rightarrow> string list \<Rightarrow> string" where
  "str_join sep [] = []"
| "str_join sep [x] = x"
| "str_join sep (x # y # r) = x @ sep @ str_join sep (y # r)"

definition py_whitespace :: "string list" where
  "py_whitespace =
     [[CHR 0x09], [CHR 0x0A], [CHR 0x0B], [CHR 0x0C], [CHR 0x0D],
      [CHR 0x1C], [CHR 0x1D], [CHR 0x1E], [CHR 0x1F], [CHR 0x20],
      [CHR 0xC2, CHR 0x85], [CHR 0xC2, CHR 0xA0], [CHR 0xE1, CHR 0x9A, CHR 0x80],
      [CHR 0xE2, CHR 0x80, CHR 0x80], [CHR 0xE2, CHR 0x80, CHR 0x81],
      [CHR 0xE2, CHR 0x80, CHR 0x82], [CHR 0xE2, CHR 0x80, CHR 0x83],
      [CHR 0xE2, CHR 0x80, CHR 0x84], [CHR 0xE2, CHR 0x80, CHR 0x85],
      [CHR 0xE2, CHR 0x80, CHR 0x86], [CHR 0xE2, CHR 0x80, CHR 0x87],
      [CHR 0xE2, CHR 0x80, CHR 0x88], [CHR 0xE2, CHR 0x80, CHR 0x89],
      [CHR 0xE2, CHR 0x80, CHR 0x8A], [CHR 0xE2, CHR 0x80, CHR 0xA8],
      [CHR 0xE2, CHR 0x80, CHR 0xA9], [CHR 0xE2, CHR 0x80, CHR 0xAF],
      [CHR 0xE2, CHR 0x81, CHR 0x9F], [CHR 0xE3, CHR 0x80, CHR 0x80]]"

function strip_left :: "string list \<Rightarrow> string \<Rightarrow> string" where
  "strip_left ws s =
     (case find (\<lambda>w. w \<noteq> [] \<and> prefix w s) ws of
        None \<Rightarrow> s
      | Some w \<Rightarrow> strip_left ws (drop (length w) s))"
  by pat_completeness auto
termination
proof (relation "measure (\<lambda>(ws, s). length s)")
  show "wf (measure (\<lambda>(ws, s). length s))" by simp
next
  fix ws :: "string list" and s w :: string
  assume "find (\<lambda>w. w \<noteq> [] \<and> prefix w s) ws = Some w"
  then have "w \<noteq> []" and "prefix w s"
    by (auto simp: find_Some_iff)
  then obtain c w' r where "w = c # w'" and "s = w @ r"
    by (auto simp: prefix_def neq_Nil_conv)
  then show "((ws, drop (length w) s), (ws, s)) \<in> measure (\<lambda>(ws, s). length s)"
    by simp
qed

definition py_strip :: "string \<Rightarrow> string" where
  "py_strip s = rev (strip_left (map rev py_whitespace) (rev (strip_left py_whitespace s)))"

section \<open>The moderation response (\<open>bot/filters.py\<close>)\<close>

text \<open>
  \<open>ModerationResponse\<close> stores what its constructor is given. \<open>from_json\<close> passes the
  values of the decoded object on unchecked, so the three attributes are Python values.
\<close>

record ModerationResponse =
  allow :: pyval
  reason :: pyval
  category :: pyval

text \<open>
  \<open>ModerationResponse.from_json\<close>. The \<open>try\<close> body decodes the text and calls
  \<open>data.get\<close> three times; on a value that is not a \<open>dict\<close> the first call raises
  \<open>AttributeError\<close>. The handler catches \<open>JSONDecodeError\<close> and \<open>KeyError\<close> only.
\<close>

definition from_json :: "string \<Rightarrow> py_exception + ModerationResponse" where
  "from_json json_str =
     (case
        (case json_loads json_str of
           Inl e \<Rightarrow> Inl e
         | Inr data \<Rightarrow>
             (case data of
                PDict d \<Rightarrow>
                  Inr \<lparr>allow = dict_get d ''allow'' (PBool False),
                       reason = dict_get d ''reason'' (PStr ''No reason provided''),
                       category = dict_get d ''category'' (PStr [])\<rparr>
              | _ \<Rightarrow> Inl AttributeError))
      of
        Inr r \<Rightarrow> Inr r
      | Inl e \<Rightarrow>
          if e = JSONDecodeError \<or> e = KeyError then
            Inr \<lparr>allow = PBool False,
                 reason = PStr ''Message could not be properly evaluated'',
                 category = PStr ''parsing_error''\<rparr>
          else Inl e)"

section \<open>Configuration (\<open>config.py\<close>)\<close>

text \<open>
  A moderation profile is a \<open>dict\<close> with the keys \<open>name\<close>, \<open>description\<close>,
  \<open>behaviors\<close> and \<open>permissive_mode\<close>; a field is \<open>None\<close> when the key is missing.
\<close>

record ModerationProfile =
  name :: "string option"
  description :: "string option"
  behaviors :: "string list option"
  permissive_mode :: "bool option"

definition manipulative_coparent :: ModerationProfile where
  "manipulative_coparent =
     \<lparr>name = Some ''Manipulative Co-Parent'',
      description = Some ''Someone who tends toward performative behavior, narrative crafting, and inconsistent actions'',
      behaviors = Some
        [''performative posturing without follow-through'',
         ''crafting narratives about being good while failing to take positive action'',
         ''manipulative language designed to appear reasonable'',
         ''deflection from actual logistics to emotional manipulation'',
         ''making themselves appear as the victim or hero'',
         ''saying the right things but consistently failing to act'',
         ''using guilt, blame, or emotional pressure instead of facts'',
         ''grandstanding or virtue signaling without substance''],
      permissive_mode = Some True\<rparr>"

definition standard :: ModerationProfile where
  "standard =
     \<lparr>name = Some ''Standard Moderation'',
      description = Some ''Basic co-parenting topic filtering'',
      behaviors = Some [],
      permissive_mode = Some True\<rparr>"

definition MODERATION_PROFILES :: "string \<rightharpoonup> ModerationProfile" where
  "MODERATION_PROFILES =
     [''manipulative_coparent'' \<mapsto> manipulative_coparent, ''standard'' \<mapsto> standard]"

text \<open>The class attributes of \<open>Config\<close>, read from the environment when it is imported.\<close>

record Config =
  BOT_TOKEN :: string
  OPENAI_API_KEY :: string
  TARGET_USERNAME :: string
  MODERATION_PROFILE :: string
  LOG_LEVEL :: string

text \<open>
  \<open>Config.get_moderation_profile\<close>, with the module's table of profiles as an argument.
  The default \<open>MODERATION_PROFILES["standard"]\<close> is evaluated before \<open>dict.get\<close> is
  called.
\<close>

definition get_moderation_profile ::
  "(string \<rightharpoonup> ModerationProfile) \<Rightarrow> Config \<Rightarrow> py_exception + ModerationProfile" where
  "get_moderation_profile profiles cfg =
     (case profiles ''standard'' of
        None \<Rightarrow> Inl KeyError
      | Some dflt \<Rightarrow>
          Inr (case profiles (MODERATION_PROFILE cfg) of None \<Rightarrow> dflt | Some p \<Rightarrow> p))"

section \<open>The system prompt (\<open>bot/filters.py\<close>)\<close>

definition base_prompt :: string where
  \<open>base_prompt =
     ''You are a co-parenting message moderator. Your job is to evaluate messages for appropriateness in a co-parenting logistics group.\<newline>'' @
     ''\<newline>'' @
     ''CORE RULES:\<newline>'' @
     ''1. ALLOW messages about: children's health, education, scheduling, logistics, emergencies\<newline>'' @
     ''2. BE PERMISSIVE: When in doubt or if context is unclear, ALLOW the message\<newline>'' @
     ''3. Only BLOCK messages that are OBVIOUSLY inappropriate\<newline>'' @
     ''\<newline>'' @
     ''RESPONSE FORMAT: Return ONLY valid JSON in this exact format:\<newline>'' @
     ''{"allow": true/false, "reason": "specific explanation", "category": "reason_category"}\<newline>'' @
     ''\<newline>''\<close>

definition profile_instructions :: string where
  \<open>profile_instructions =
     ''\<newline>'' @
     ''When blocking, use specific language about what pattern was detected.\<newline>'' @
     ''Examples of targeted responses:\<newline>'' @
     ''- "This appears to be performative posturing rather than actionable co-parenting communication"\<newline>'' @
     ''- "This message deflects from logistics to emotional manipulation"\<newline>'' @
     ''- "This seems designed to craft a narrative rather than address children's needs"\<newline>'' @
     ''- "This appears to be grandstanding without substance about children's welfare"\<newline>'' @
     ''\<newline>''\<close>

text \<open>
  The f-string \<open>profile_prompt\<close>: its fixed text with the profile's name and the lines
  of the behavior patterns in their places.
\<close>

definition profile_prompt :: "string \<Rightarrow> string \<Rightarrow> string" where
  "profile_prompt profile_name behavior_text =
     ''\<newline>'' @
     ''MODERATION PROFILE: '' @ profile_name @ ''\<newline>'' @
     ''Watch specifically for these behavioral patterns:\<newline>'' @
     behavior_text @ ''\<newline>'' @
     profile_instructions"

definition bias_instruction :: string where
  "bias_instruction =
     ''Remember: When message intent is unclear or ambiguous, ALWAYS err on the side of allowing it.''"

definition examples_prompt :: string where
  \<open>examples_prompt =
     ''\<newline>'' @
     ''EXAMPLES:\<newline>'' @
     ''{"allow": true, "reason": "Legitimate scheduling discussion", "category": "scheduling"}\<newline>'' @
     ''{"allow": false, "reason": "This appears to be performative posturing rather than actionable co-parenting communication", "category": "performative"}\<newline>'' @
     ''{"allow": true, "reason": "Unclear context but potentially legitimate", "category": "permissive"}\<newline>'' @
     ''\<newline>'' @
     bias_instruction\<close>

text \<open>The line \<open>f"- {behavior}"\<close> of one behavior pattern.\<close>

definition behavior_line :: "string \<Rightarrow> string" where
  "behavior_line behavior = ''- '' @ behavior"

text \<open>
  \<open>_build_system_prompt\<close>: the profile block is added when \<open>profile["behaviors"]\<close> is
  a non-empty list. A missing \<open>behaviors\<close> or \<open>name\<close> key raises \<open>KeyError\<close>.
\<close>

definition build_system_prompt ::
  "(string \<rightharpoonup> ModerationProfile) \<Rightarrow> Config \<Rightarrow> py_exception + string" where
  "build_system_prompt profiles cfg =
     (case get_moderation_profile profiles cfg of
        Inl e \<Rightarrow> Inl e
      | Inr profile \<Rightarrow>
          (case behaviors profile of
             None \<Rightarrow> Inl KeyError
           | Some bs \<Rightarrow>
               if bs \<noteq> [] then
                 (let behavior_text = str_join ''\<newline>'' (map behavior_line bs)
                  in case name profile of
                       None \<Rightarrow> Inl KeyError
                     | Some n \<Rightarrow>
                         Inr (base_prompt @ profile_prompt n behavior_text @ examples_prompt))
               else Inr (base_prompt @ examples_prompt)))"

section \<open>Classification (\<open>bot/filters.py\<close>)\<close>

text \<open>
  The request that \<open>_classify_with_openai\<close> sends. The temperature and the timeout are
  floating-point constants and are kept as the literals of the source.
\<close>

record request =
  model :: string
  messages :: "(string \<times> string) list"
  max_tokens :: nat
  temperature :: string
  timeout :: string

text \<open>
  What \<open>client.chat.completions.create\<close> does: it raises, or it returns a response whose
  choices each carry a message content, which is a \<open>str\<close> or \<open>None\<close>.
\<close>

datatype api_result = Raises py_exception | Returns "string option list"

text \<open>
  The state that the module reads: the configuration and the global \<open>client\<close>, which is
  \<open>None\<close> when the client could not be created.
\<close>

record runtime =
  config :: Config
  client :: "(request \<Rightarrow> api_result) option"

text \<open>The four \<open>except\<close> clauses of \<open>_classify_with_openai\<close>; each raises \<open>RuntimeError\<close>.\<close>

definition openai_handler :: "py_exception \<Rightarrow> py_exception" where
  "openai_handler e =
     (if e = RateLimitError then RuntimeError
      else if e = APIConnectionError then RuntimeError
      else if e = APITimeoutError then RuntimeError
      else RuntimeError)"

definition classify_with_openai ::
  "(string \<rightharpoonup> ModerationProfile) \<Rightarrow> runtime \<Rightarrow> string \<Rightarrow> py_exception + ModerationResponse" where
  "classify_with_openai profiles rt text =
     (case client rt of
        None \<Rightarrow> Inl RuntimeError
      | Some create \<Rightarrow>
          (case
             (case build_system_prompt profiles (config rt) of
                Inl e \<Rightarrow> Inl e
              | Inr system_prompt \<Rightarrow>
                  (case create
                          \<lparr>model = ''gpt-4o-mini'',
                           messages = [(''system'', system_prompt),
                                       (''user'', ''Evaluate this message: '' @ text)],
                           max_tokens = 150,
                           temperature = ''0.1'',
                           timeout = ''15.0''\<rparr>
                   of
                     Raises e \<Rightarrow> Inl e
                   | Returns choices \<Rightarrow>
                       (case choices of
                          [] \<Rightarrow> Inl IndexError
                        | content # _ \<Rightarrow>
                            (case content of
                               None \<Rightarrow> Inl AttributeError
                             | Some result \<Rightarrow> from_json (py_strip result)))))
           of
             Inr r \<Rightarrow> Inr r
           | Inl e \<Rightarrow> Inl (openai_handler e)))"

text \<open>
  \<open>classify\<close>: any exception of \<open>_classify_with_openai\<close> is caught; the handler looks the
  profile up again and reads \<open>permissive_mode\<close> with the default \<open>True\<close>.
\<close>

definition classify ::
  "(string \<rightharpoonup> ModerationProfile) \<Rightarrow> runtime \<Rightarrow> string \<Rightarrow> py_exception + ModerationResponse" where
  "classify profiles rt text =
     (case classify_with_openai profiles rt text of
        Inr r \<Rightarrow> Inr r
      | Inl e \<Rightarrow>
          (case get_moderation_profile profiles (config rt) of
             Inl e' \<Rightarrow> Inl e'
           | Inr profile \<Rightarrow>
               if (case permissive_mode profile of None \<Rightarrow> True | Some b \<Rightarrow> b) then
                 Inr \<lparr>allow = PBool True,
                      reason = PStr ''Unable to evaluate - allowing due to permissive mode'',
                      category = PStr ''error_permissive''\<rparr>
               else
                 Inr \<lparr>allow = PBool False,
                      reason = PStr ''Unable to evaluate message properly'',
                      category = PStr ''error_blocking''\<rparr>))"

section \<open>The warning message (\<open>bot/handlers.py\<close>)\<close>

definition base_message :: string where
  "base_message =
     ''This group is for co-parenting logistics only (health, education, scheduling, logistics).''"

definition category_messages :: "string \<rightharpoonup> string" where
  "category_messages =
     map_of
       [(''performative'', ''Your message appeared to be performative posturing rather than actionable co-parenting communication.''),
        (''manipulation'', ''Your message seemed to deflect from logistics to emotional manipulation.''),
        (''narrative'', ''Your message appeared to craft a narrative rather than address children's needs.''),
        (''grandstanding'', ''Your message seemed to be grandstanding without substance about children's welfare.''),
        (''off_topic'', ''Your message was off-topic for this co-parenting logistics group.''),
        (''emotional_pressure'', ''Your message used emotional pressure instead of focusing on factual logistics.''),
        (''deflection'', ''Your message deflected from actual logistics to other topics.'')]"

text \<open>
  An f-string field prints a \<open>str\<close> as it is, and any other value through the built-in
  \<open>str\<close>, which is the argument \<open>str_of\<close>.
\<close>

definition format_value :: "(pyval \<Rightarrow> string) \<Rightarrow> pyval \<Rightarrow> string" where
  "format_value str_of v = (case v of PStr s \<Rightarrow> s | _ \<Rightarrow> str_of v)"

text \<open>
  \<open>_build_warning_message\<close>. The test \<open>category in category_messages\<close> runs only when
  the reason is one of the two generic strings; it hashes the category, which raises
  \<open>TypeError\<close> for a list or a dict.
\<close>

definition build_warning_message ::
  "(pyval \<Rightarrow> string) \<Rightarrow> ModerationResponse \<Rightarrow> py_exception + string" where
  "build_warning_message str_of moderation_result =
     (let specific_reason = reason moderation_result in
      if specific_reason \<in> set [PStr ''No reason provided'',
                                 PStr ''Message could not be properly evaluated''] then
        (case category moderation_result of
           PList _ \<Rightarrow> Inl TypeError
         | PDict _ \<Rightarrow> Inl TypeError
         | PStr c \<Rightarrow>
             (case category_messages c of
                Some explanation \<Rightarrow> Inr (base_message @ '' '' @ explanation)
              | None \<Rightarrow> Inr (base_message @ '' '' @ format_value str_of specific_reason))
         | _ \<Rightarrow> Inr (base_message @ '' '' @ format_value str_of specific_reason))
      else Inr (base_message @ '' '' @ format_value str_of specific_reason))"

section \<open>Predicates on values\<close>

text \<open>The value is a \<open>str\<close> of at least one character.\<close>

fun is_nonempty_str :: "pyval \<Rightarrow> bool" where
  "is_nonempty_str (PStr s) = (s \<noteq> [])"
| "is_nonempty_str _ = False"

section \<open>Example inputs\<close>

text \<open>The configuration when no environment variable is set.\<close>

definition default_config :: Config where
  "default_config =
     \<lparr>BOT_TOKEN = [], OPENAI_API_KEY = [], TARGET_USERNAME = ''parkerrralex'',
      MODERATION_PROFILE = ''manipulative_coparent'', LOG_LEVEL = ''INFO''\<rparr>"

section \<open>Facts about the parser\<close>

text \<open>The decoder raises nothing but \<open>JSONDecodeError\<close>.\<close>

lemma json_loads_raises: "json_loads raw = Inl e \<Longrightarrow> e = JSONDecodeError"
  by (auto simp: json_loads_def finalize_def
      split: option.splits prod.splits mode.splits list.splits)

text \<open>The three outcomes of \<open>from_json\<close>, by what the decoder does.\<close>

lemma from_json_decode_error:
  "json_loads raw = Inl e \<Longrightarrow>
   from_json raw =
     Inr \<lparr>allow = PBool False, reason = PStr ''Message could not be properly evaluated'',
          category = PStr ''parsing_error''\<rparr>"
  using json_loads_raises [of raw e] by (simp add: from_json_def)

lemma from_json_dict:
  "json_loads raw = Inr (PDict d) \<Longrightarrow>
   from_json raw =
     Inr \<lparr>allow = dict_get d ''allow'' (PBool False),
          reason = dict_get d ''reason'' (PStr ''No reason provided''),
          category = dict_get d ''category'' (PStr [])\<rparr>"
  by (simp add: from_json_def)

lemma from_json_non_dict:
  "json_loads raw = Inr v \<Longrightarrow> \<forall>d. v \<noteq> PDict d \<Longrightarrow> from_json raw = Inl AttributeError"
  by (cases v) (simp_all add: from_json_def)

text \<open>
  The reason of a parsed response is a non-empty string unless the decoded object
  itself supplies another value.
\<close>

lemma from_json_reason:
  assumes "from_json raw = Inr r"
    and "\<forall>d v. json_loads raw = Inr (PDict d) \<and> map_of d ''reason'' = Some v \<longrightarrow> is_nonempty_str v"
  shows "is_nonempty_str (reason r)"
proof (cases "json_loads raw")
  case (Inl e)
  from from_json_decode_error [OF Inl] assms(1) show ?thesis by auto
next
  case (Inr v)
  show ?thesis
  proof (cases "\<exists>d. v = PDict d")
    case True
    then obtain d where d: "v = PDict d" ..
    with Inr have "json_loads raw = Inr (PDict d)" by simp
    from from_json_dict [OF this] assms(1)
    have r: "reason r = dict_get d ''reason'' (PStr ''No reason provided'')" by auto
    show ?thesis
    proof (cases "map_of d ''reason''")
      case None
      with r show ?thesis by (simp add: dict_get_def)
    next
      case (Some w)
      with assms(2) Inr d have "is_nonempty_str w" by blast
      with r Some show ?thesis by (simp add: dict_get_def)
    qed
  next
    case False
    with from_json_non_dict [OF Inr] assms(1) show ?thesis by simp
  qed
qed

section \<open>Facts about the profile table and the classifier\<close>

lemma get_moderation_profile_table:
  "get_moderation_profile MODERATION_PROFILES cfg =
     Inr (if MODERATION_PROFILE cfg = ''manipulative_coparent'' then manipulative_coparent
          else standard)"
  by (simp add: get_moderation_profile_def MODERATION_PROFILES_def)

lemma openai_handler_RuntimeError: "openai_handler e = RuntimeError"
  by (simp add: openai_handler_def)

lemma classify_with_openai_raises:
  "classify_with_openai profiles rt text = Inl e \<Longrightarrow> e = RuntimeError"
  by (auto simp: classify_with_openai_def openai_handler_RuntimeError
      split: option.splits sum.splits)

text \<open>
  A call that raises, whatever the request, makes \<open>_classify_with_openai\<close> raise
  \<open>RuntimeError\<close>; so does a client that was never created.
\<close>

lemma classify_with_openai_transport:
  assumes "client rt = Some create" and "\<forall>req. \<exists>e. create req = Raises e"
  shows "classify_with_openai profiles rt text = Inl RuntimeError"
proof (cases "build_system_prompt profiles (config rt)")
  case (Inl e)
  with assms(1) show ?thesis
    by (simp add: classify_with_openai_def openai_handler_RuntimeError)
next
  case (Inr system_prompt)
  let ?req = "\<lparr>model = ''gpt-4o-mini'',
      messages = [(''system'', system_prompt), (''user'', ''Evaluate this message: '' @ text)],
      max_tokens = 150, temperature = ''0.1'', timeout = ''15.0''\<rparr>"
  from assms(2) obtain e where "create ?req = Raises e" by blast
  with assms(1) Inr show ?thesis
    by (simp add: classify_with_openai_def openai_handler_RuntimeError)
qed

lemma classify_with_openai_no_client:
  "client rt = None \<Longrightarrow> classify_with_openai profiles rt text = Inl RuntimeError"
  by (simp add: classify_with_openai_def)

text \<open>
  The scenario of the specification: under the \<open>standard\<close> profile the service answers
  a scheduling question with an allowing object, and \<open>classify\<close> returns that response.
\<close>

lemma classify_scheduling_scenario:
  \<open>classify MODERATION_PROFILES
     \<lparr>config = default_config\<lparr>MODERATION_PROFILE := ''standard''\<rparr>,
      client = Some (\<lambda>req. Returns [Some ''{"allow": true, "reason": "Legitimate scheduling discussion", "category": "scheduling"}''])\<rparr>
     ''Can we move pickup to 5pm Friday?'' =
     Inr \<lparr>allow = PBool True, reason = PStr ''Legitimate scheduling discussion'',
          category = PStr ''scheduling''\<rparr>\<close>
  by code_simp

text \<open>A reply that is not JSON ends in the parser's blocking fallback.\<close>

lemma classify_unparsable_reply:
  \<open>classify MODERATION_PROFILES
     \<lparr>config = default_config, client = Some (\<lambda>req. Returns [Some ''I would allow this.''])\<rparr>
     ''hello'' =
     Inr \<lparr>allow = PBool False, reason = PStr ''Message could not be properly evaluated'',
          category = PStr ''parsing_error''\<rparr>\<close>
  by code_simp

section \<open>Facts about the prompt and the warning\<close>

text \<open>Every joined element stands between two separators once the whole is framed by them.\<close>

lemma str_join_Cons: "str_join sep (x # xs) = x @ concat (map (\<lambda>y. sep @ y) xs)"
  by (induction xs arbitrary: x) simp_all

lemma str_join_lines:
  assumes "b \<in> set bs"
  shows "\<exists>pre post. sep @ str_join sep (map f bs) @ sep = pre @ sep @ f b @ sep @ post"
proof -
  from assms obtain xs ys where bs: "bs = xs @ b # ys"
    by (auto dest: split_list)
  let ?g = "\<lambda>y. sep @ f y"
  have whole: "sep @ str_join sep (map f bs) = concat (map ?g bs)"
    unfolding bs by (cases xs) (simp_all add: str_join_Cons comp_def)
  have "\<exists>post. concat (map ?g ys) @ sep = sep @ post"
    by (cases ys) simp_all
  then obtain post where post: "concat (map ?g ys) @ sep = sep @ post" ..
  have "sep @ str_join sep (map f bs) @ sep = (concat (map ?g bs)) @ sep"
    using whole by simp
  also have "\<dots> = concat (map ?g xs) @ sep @ f b @ (concat (map ?g ys) @ sep)"
    by (simp add: bs)
  also have "\<dots> = concat (map ?g xs) @ sep @ f b @ sep @ post"
    by (simp only: post)
  finally show ?thesis by blast
qed

text \<open>The keys of the table of explanations.\<close>

lemma category_messages_dom:
  "dom category_messages =
     {''performative'', ''manipulation'', ''narrative'', ''grandstanding'', ''off_topic'',
      ''emotional_pressure'', ''deflection''}"
  unfolding category_messages_def dom_map_of_conv_image_fst by simp

text \<open>
  With a generic reason and a category that is a list, the membership test in the table
  raises \<open>TypeError\<close>.
\<close>

lemma build_warning_message_unhashable:
  "reason d = PStr ''No reason provided'' \<Longrightarrow> category d = PList xs \<Longrightarrow>
   build_warning_message str_of d = Inl TypeError"
  by (simp add: build_warning_message_def)


text \<open>The fixed text of the prompt does not name a moderation profile.\<close>

lemma no_profile_block: "\<not> sublist ''MODERATION PROFILE'' (base_prompt @ examples_prompt)"
  by code_simp

section \<open>The decision pipeline\<close>

text \<open>
  C1. With the profile table of \<open>config.py\<close>, \<open>classify\<close> returns a
  \<open>ModerationResponse\<close> for every text, every configuration, whether or not the client
  exists, and whatever the call to the service does: raise any exception, return no
  choice, return a choice without content, or return any text at all. No exception
  reaches the caller.
\<close>

theorem classify_total: "\<exists>d. classify MODERATION_PROFILES rt text = Inr d"
proof (cases "classify_with_openai MODERATION_PROFILES rt text")
  case (Inr r)
  then show ?thesis by (simp add: classify_def)
next
  case (Inl e)
  then show ?thesis
    by (simp add: classify_def get_moderation_profile_table)
qed

text \<open>
  C2. When \<open>_classify_with_openai\<close> raises, \<open>classify\<close> returns the permissive
  fallback (allow, "Unable to evaluate - allowing due to permissive mode",
  "error_permissive") if the active profile has \<open>permissive_mode\<close> true, and the
  blocking fallback (block, "Unable to evaluate message properly", "error_blocking") if
  it has \<open>permissive_mode\<close> false, for every text.
\<close>

theorem classify_transport_failure:
  assumes "classify_with_openai profiles rt text = Inl e"
    and "get_moderation_profile profiles (config rt) = Inr p"
  shows "(permissive_mode p = Some True \<longrightarrow>
            classify profiles rt text =
              Inr \<lparr>allow = PBool True,
                   reason = PStr ''Unable to evaluate - allowing due to permissive mode'',
                   category = PStr ''error_permissive''\<rparr>) \<and>
         (permissive_mode p = Some False \<longrightarrow>
            classify profiles rt text =
              Inr \<lparr>allow = PBool False,
                   reason = PStr ''Unable to evaluate message properly'',
                   category = PStr ''error_blocking''\<rparr>)"
  using assms by (simp add: classify_def)

text \<open>
  The service times out under the default configuration (profile
  \<open>manipulative_coparent\<close>, permissive), and it rejects the call for its rate under a
  table whose \<open>standard\<close> profile is not permissive.
\<close>

theorem classify_transport_failure_witness:
  "classify_with_openai MODERATION_PROFILES
     \<lparr>config = default_config, client = Some (\<lambda>req. Raises APITimeoutError)\<rparr>
     ''Can we move pickup to 5pm Friday?'' = Inl RuntimeError \<and>
   classify MODERATION_PROFILES
     \<lparr>config = default_config, client = Some (\<lambda>req. Raises APITimeoutError)\<rparr>
     ''Can we move pickup to 5pm Friday?'' =
     Inr \<lparr>allow = PBool True,
          reason = PStr ''Unable to evaluate - allowing due to permissive mode'',
          category = PStr ''error_permissive''\<rparr> \<and>
   classify (MODERATION_PROFILES(''standard'' \<mapsto> standard\<lparr>permissive_mode := Some False\<rparr>))
     \<lparr>config = default_config\<lparr>MODERATION_PROFILE := ''standard''\<rparr>,
      client = Some (\<lambda>req. Raises RateLimitError)\<rparr>
     ''Can we move pickup to 5pm Friday?'' =
     Inr \<lparr>allow = PBool False,
          reason = PStr ''Unable to evaluate message properly'',
          category = PStr ''error_blocking''\<rparr>"
proof -
  let ?text = "''Can we move pickup to 5pm Friday?''"
  let ?rt1 = "\<lparr>config = default_config, client = Some (\<lambda>req. Raises APITimeoutError)\<rparr>"
  let ?ps2 = "MODERATION_PROFILES(''standard'' \<mapsto> standard\<lparr>permissive_mode := Some False\<rparr>)"
  let ?rt2 = "\<lparr>config = default_config\<lparr>MODERATION_PROFILE := ''standard''\<rparr>,
      client = Some (\<lambda>req. Raises RateLimitError)\<rparr>"
  have f1: "classify_with_openai MODERATION_PROFILES ?rt1 ?text = Inl RuntimeError"
    by (rule classify_with_openai_transport [where create = "\<lambda>req. Raises APITimeoutError"])
      simp_all
  have p1: "get_moderation_profile MODERATION_PROFILES (config ?rt1) = Inr manipulative_coparent"
    by (simp add: get_moderation_profile_table default_config_def)
  have m1: "permissive_mode manipulative_coparent = Some True"
    by (simp add: manipulative_coparent_def)
  have f2: "classify_with_openai ?ps2 ?rt2 ?text = Inl RuntimeError"
    by (rule classify_with_openai_transport [where create = "\<lambda>req. Raises RateLimitError"])
      simp_all
  have p2: "get_moderation_profile ?ps2 (config ?rt2) =
      Inr (standard\<lparr>permissive_mode := Some False\<rparr>)"
    by (simp add: get_moderation_profile_def default_config_def)
  have m2: "permissive_mode (standard\<lparr>permissive_mode := Some False\<rparr>) = Some False"
    by simp
  from f1 classify_transport_failure [OF f1 p1] m1 classify_transport_failure [OF f2 p2] m2
  show ?thesis by blast
qed

text \<open>
  C10. When \<open>_classify_with_openai\<close> raises and the active profile has no
  \<open>permissive_mode\<close> key, \<open>classify\<close> takes the profile for permissive and returns the
  permissive fallback, for every text.
\<close>

theorem classify_missing_permissive_mode:
  assumes "classify_with_openai profiles rt text = Inl e"
    and "get_moderation_profile profiles (config rt) = Inr p"
    and "permissive_mode p = None"
  shows "classify profiles rt text =
           Inr \<lparr>allow = PBool True,
                reason = PStr ''Unable to evaluate - allowing due to permissive mode'',
                category = PStr ''error_permissive''\<rparr>"
  using assms by (simp add: classify_def)

text \<open>
  The client was never created, and the \<open>standard\<close> profile of the table has lost its
  \<open>permissive_mode\<close> key.
\<close>

theorem classify_missing_permissive_mode_witness:
  "permissive_mode (standard\<lparr>permissive_mode := None\<rparr>) = None \<and>
   classify (MODERATION_PROFILES(''standard'' \<mapsto> standard\<lparr>permissive_mode := None\<rparr>))
     \<lparr>config = default_config\<lparr>MODERATION_PROFILE := ''standard''\<rparr>, client = None\<rparr>
     ''See you at 5'' =
     Inr \<lparr>allow = PBool True,
          reason = PStr ''Unable to evaluate - allowing due to permissive mode'',
          category = PStr ''error_permissive''\<rparr>"
proof -
  let ?ps = "MODERATION_PROFILES(''standard'' \<mapsto> standard\<lparr>permissive_mode := None\<rparr>)"
  let ?rt = "\<lparr>config = default_config\<lparr>MODERATION_PROFILE := ''standard''\<rparr>, client = None\<rparr>"
  have f: "classify_with_openai ?ps ?rt ''See you at 5'' = Inl RuntimeError"
    by (simp add: classify_with_openai_no_client)
  have p: "get_moderation_profile ?ps (config ?rt) = Inr (standard\<lparr>permissive_mode := None\<rparr>)"
    by (simp add: get_moderation_profile_def default_config_def)
  have m: "permissive_mode (standard\<lparr>permissive_mode := None\<rparr>) = None"
    by simp
  from classify_missing_permissive_mode [OF f p m] m show ?thesis by simp
qed

section \<open>The response parser\<close>

text \<open>
  C3. The claim is that \<open>from_json\<close> returns the fixed fallback (block, "Message could
  not be properly evaluated", "parsing_error") for every text that is not valid JSON or
  whose top-level value is not an object. For valid JSON that is not an object the code
  does otherwise: \<open>data.get\<close> raises \<open>AttributeError\<close>, which the handler does not
  catch. Inside the pipeline the exception becomes a \<open>RuntimeError\<close>, and a reply
  \<open>[]\<close> of the service ends in the permissive fallback.
\<close>

theorem from_json_non_object_raises:
  \<open>from_json ''[]'' = Inl AttributeError \<and>
   from_json ''42'' = Inl AttributeError \<and>
   from_json ''null'' = Inl AttributeError \<and>
   from_json ''"blocked"'' = Inl AttributeError \<and>
   classify MODERATION_PROFILES
     \<lparr>config = default_config, client = Some (\<lambda>req. Returns [Some ''[]''])\<rparr>
     ''hello'' =
     Inr \<lparr>allow = PBool True,
          reason = PStr ''Unable to evaluate - allowing due to permissive mode'',
          category = PStr ''error_permissive''\<rparr>\<close>
  by code_simp

text \<open>
  C4. For every text that decodes to a JSON object, \<open>from_json\<close> returns the response
  whose \<open>allow\<close> is the object's "allow" value, or false when the key is absent, whose
  \<open>reason\<close> is its "reason" value, or "No reason provided", and whose \<open>category\<close> is
  its "category" value, or the empty string; the two examples of the specification
  evaluate as stated.
\<close>

theorem from_json_object:
  \<open>(json_loads raw = Inr (PDict d) \<longrightarrow>
      from_json raw =
        Inr \<lparr>allow = (case map_of d ''allow'' of None \<Rightarrow> PBool False | Some v \<Rightarrow> v),
             reason = (case map_of d ''reason'' of
                         None \<Rightarrow> PStr ''No reason provided'' | Some v \<Rightarrow> v),
             category = (case map_of d ''category'' of None \<Rightarrow> PStr [] | Some v \<Rightarrow> v)\<rparr>) \<and>
   from_json ''{"allow": true, "reason": "x", "category": "y"}'' =
     Inr \<lparr>allow = PBool True, reason = PStr ''x'', category = PStr ''y''\<rparr> \<and>
   from_json ''{}'' =
     Inr \<lparr>allow = PBool False, reason = PStr ''No reason provided'', category = PStr []\<rparr>\<close>
proof (intro conjI impI)
  assume "json_loads raw = Inr (PDict d)"
  from from_json_dict [OF this]
  show "from_json raw =
        Inr \<lparr>allow = (case map_of d ''allow'' of None \<Rightarrow> PBool False | Some v \<Rightarrow> v),
             reason = (case map_of d ''reason'' of
                         None \<Rightarrow> PStr ''No reason provided'' | Some v \<Rightarrow> v),
             category = (case map_of d ''category'' of None \<Rightarrow> PStr [] | Some v \<Rightarrow> v)\<rparr>"
    by (simp add: dict_get_def)
next
  show \<open>from_json ''{"allow": true, "reason": "x", "category": "y"}'' =
     Inr \<lparr>allow = PBool True, reason = PStr ''x'', category = PStr ''y''\<rparr>\<close>
    by code_simp
next
  show \<open>from_json ''{}'' =
     Inr \<lparr>allow = PBool False, reason = PStr ''No reason provided'', category = PStr []\<rparr>\<close>
    by code_simp
qed

text \<open>
  An object between blanks, with a repeated key and a category that is a number: the
  values are passed on as they are.
\<close>

theorem from_json_object_witness:
  \<open>json_loads ''  {"category": 7, "allow": false, "allow": true}  '' =
     Inr (PDict [(''category'', PInt 7), (''allow'', PBool True)]) \<and>
   from_json ''  {"category": 7, "allow": false, "allow": true}  '' =
     Inr \<lparr>allow = PBool True, reason = PStr ''No reason provided'', category = PInt 7\<rparr>\<close>
proof -
  have h: \<open>json_loads ''  {"category": 7, "allow": false, "allow": true}  '' =
     Inr (PDict [(''category'', PInt 7), (''allow'', PBool True)])\<close>
    by code_simp
  from from_json_object [of \<open>''  {"category": 7, "allow": false, "allow": true}  ''\<close>
      "[(''category'', PInt 7), (''allow'', PBool True)]"] h
  show ?thesis by simp
qed

text \<open>
  C9. The claim is that every response of \<open>from_json\<close>, and so of \<open>classify\<close>, has a
  non-empty reason string. It fails for an object whose "reason" is the empty string.
\<close>

theorem from_json_empty_reason:
  \<open>from_json ''{"allow": false, "reason": ""}'' =
     Inr \<lparr>allow = PBool False, reason = PStr [], category = PStr []\<rparr>\<close>
  by code_simp

text \<open>
  C9, amended. Every response of \<open>from_json\<close> has a non-empty reason string, provided
  that, when the text decodes to an object with a "reason" member, this member is a
  non-empty string; and every response of \<open>classify\<close> has one, provided the same of the
  reply of the service, stripped.
\<close>

theorem decision_reason_nonempty:
  "(from_json raw = Inr r \<and>
    (\<forall>d v. json_loads raw = Inr (PDict d) \<and> map_of d ''reason'' = Some v \<longrightarrow>
       is_nonempty_str v) \<longrightarrow>
    is_nonempty_str (reason r)) \<and>
   (classify profiles rt text = Inr r' \<and>
    (\<forall>create req content rest d v.
       client rt = Some create \<and> create req = Returns (Some content # rest) \<and>
       json_loads (py_strip content) = Inr (PDict d) \<and> map_of d ''reason'' = Some v \<longrightarrow>
       is_nonempty_str v) \<longrightarrow>
    is_nonempty_str (reason r'))"
proof (intro conjI impI)
  assume "from_json raw = Inr r \<and>
    (\<forall>d v. json_loads raw = Inr (PDict d) \<and> map_of d ''reason'' = Some v \<longrightarrow>
       is_nonempty_str v)"
  then show "is_nonempty_str (reason r)"
    using from_json_reason [of raw r] by blast
next
  assume a: "classify profiles rt text = Inr r' \<and>
    (\<forall>create req content rest d v.
       client rt = Some create \<and> create req = Returns (Some content # rest) \<and>
       json_loads (py_strip content) = Inr (PDict d) \<and> map_of d ''reason'' = Some v \<longrightarrow>
       is_nonempty_str v)"
  show "is_nonempty_str (reason r')"
  proof (cases "classify_with_openai profiles rt text")
    case (Inl e)
    with a show ?thesis
      by (auto simp: classify_def split: sum.splits if_splits)
  next
    case (Inr r0)
    with a have eq: "r0 = r'" by (simp add: classify_def)
    from Inr obtain create req content rest where
      c: "client rt = Some create" "create req = Returns (Some content # rest)"
        "from_json (py_strip content) = Inr r0"
      by (auto simp: classify_with_openai_def
          split: option.splits sum.splits api_result.splits list.splits)
    from a c(1,2) have
      "\<forall>d v. json_loads (py_strip content) = Inr (PDict d) \<and> map_of d ''reason'' = Some v \<longrightarrow>
         is_nonempty_str v"
      by blast
    from from_json_reason [OF c(3) this] eq show ?thesis by simp
  qed
qed

text \<open>
  The service replies with an object whose "reason" is "Off topic"; the response carries
  that reason, from \<open>from_json\<close> and from \<open>classify\<close>.
\<close>

theorem decision_reason_nonempty_witness:
  \<open>from_json ''{"allow": false, "reason": "Off topic"}'' =
     Inr \<lparr>allow = PBool False, reason = PStr ''Off topic'', category = PStr []\<rparr> \<and>
   classify MODERATION_PROFILES
     \<lparr>config = default_config,
      client = Some (\<lambda>req. Returns [Some ''{"allow": false, "reason": "Off topic"}''])\<rparr>
     ''hello'' =
     Inr \<lparr>allow = PBool False, reason = PStr ''Off topic'', category = PStr []\<rparr> \<and>
   is_nonempty_str
     (reason \<lparr>allow = PBool False, reason = PStr ''Off topic'', category = PStr []\<rparr>)\<close>
proof -
  let ?raw = \<open>''{"allow": false, "reason": "Off topic"}''\<close>
  let ?r = "\<lparr>allow = PBool False, reason = PStr ''Off topic'', category = PStr []\<rparr>"
  let ?rt = "\<lparr>config = default_config, client = Some (\<lambda>req. Returns [Some ?raw])\<rparr>"
  have l: "json_loads ?raw =
      Inr (PDict [(''allow'', PBool False), (''reason'', PStr ''Off topic'')])"
    by code_simp
  have s: "py_strip ?raw = ?raw"
    by code_simp
  have f: "from_json ?raw = Inr ?r"
    by code_simp
  have c: "classify MODERATION_PROFILES ?rt ''hello'' = Inr ?r"
    by code_simp
  have h1: "\<forall>d v. json_loads ?raw = Inr (PDict d) \<and> map_of d ''reason'' = Some v \<longrightarrow>
      is_nonempty_str v"
    by (auto simp: l)
  have h2: "\<forall>create req content rest d v.
      client ?rt = Some create \<and> create req = Returns (Some content # rest) \<and>
      json_loads (py_strip content) = Inr (PDict d) \<and> map_of d ''reason'' = Some v \<longrightarrow>
      is_nonempty_str v"
    by (auto simp: l s)
  from decision_reason_nonempty [of ?raw ?r MODERATION_PROFILES ?rt "''hello''" ?r] f c h1 h2
  show ?thesis by blast
qed

section \<open>The warning composer\<close>

text \<open>
  C5. For a blocked response whose reason and category are strings, the warning is the
  fixed scope statement, a blank and the reason as it is, except when the reason is "No
  reason provided" or "Message could not be properly evaluated" and the category is a
  key of the table, which holds exactly performative, manipulation, narrative,
  grandstanding, off_topic, emotional_pressure and deflection; then the table's
  explanation stands in place of the reason.
\<close>

theorem build_warning_message_text:
  assumes "allow d = PBool False" and "reason d = PStr r" and "category d = PStr c"
  shows "build_warning_message str_of d =
           Inr (base_message @ '' '' @
                (if r \<in> {''No reason provided'', ''Message could not be properly evaluated''}
                 then (case category_messages c of Some explanation \<Rightarrow> explanation | None \<Rightarrow> r)
                 else r)) \<and>
         dom category_messages =
           {''performative'', ''manipulation'', ''narrative'', ''grandstanding'', ''off_topic'',
            ''emotional_pressure'', ''deflection''}"
  using assms
  by (auto simp: build_warning_message_def format_value_def category_messages_dom
      split: option.splits)

text \<open>
  The two examples of the specification, and the parser's fallback, whose category is
  not in the table.
\<close>

theorem build_warning_message_text_witness:
  "build_warning_message (\<lambda>v. [])
     \<lparr>allow = PBool False, reason = PStr ''No reason provided'',
      category = PStr ''performative''\<rparr> =
     Inr ''This group is for co-parenting logistics only (health, education, scheduling, logistics). Your message appeared to be performative posturing rather than actionable co-parenting communication.'' \<and>
   build_warning_message (\<lambda>v. [])
     \<lparr>allow = PBool False, reason = PStr ''Specific AI reason'', category = PStr ''off_topic''\<rparr> =
     Inr ''This group is for co-parenting logistics only (health, education, scheduling, logistics). Specific AI reason'' \<and>
   build_warning_message (\<lambda>v. [])
     \<lparr>allow = PBool False, reason = PStr ''Message could not be properly evaluated'',
      category = PStr ''parsing_error''\<rparr> =
     Inr ''This group is for co-parenting logistics only (health, education, scheduling, logistics). Message could not be properly evaluated''"
proof -
  let ?d1 = "\<lparr>allow = PBool False, reason = PStr ''No reason provided'',
      category = PStr ''performative''\<rparr>"
  let ?d2 = "\<lparr>allow = PBool False, reason = PStr ''Specific AI reason'',
      category = PStr ''off_topic''\<rparr>"
  let ?d3 = "\<lparr>allow = PBool False, reason = PStr ''Message could not be properly evaluated'',
      category = PStr ''parsing_error''\<rparr>"
  have m1: "category_messages ''performative'' = Some ''Your message appeared to be performative posturing rather than actionable co-parenting communication.''"
    by (simp add: category_messages_def)
  have m3: "category_messages ''parsing_error'' = None"
    by (simp add: category_messages_def)
  from build_warning_message_text [of ?d1 "''No reason provided''" "''performative''" "\<lambda>v. []"]
    build_warning_message_text [of ?d2 "''Specific AI reason''" "''off_topic''" "\<lambda>v. []"]
    build_warning_message_text [of ?d3 "''Message could not be properly evaluated''"
      "''parsing_error''" "\<lambda>v. []"]
  show ?thesis by (simp add: m1 m3 base_message_def)
qed

section \<open>The prompt builder\<close>

text \<open>
  C6. The prompt is a function of the active profile's name and behavior list alone: two
  tables and configurations whose active profiles agree on \<open>name\<close> and \<open>behaviors\<close>,
  whatever their descriptions and \<open>permissive_mode\<close>, give the same result. The result
  is a value of its arguments, so a repeated call returns it again.
\<close>

theorem build_system_prompt_name_behaviors:
  assumes "get_moderation_profile profiles1 cfg1 = Inr p"
    and "get_moderation_profile profiles2 cfg2 = Inr q"
    and "name p = name q" and "behaviors p = behaviors q"
  shows "build_system_prompt profiles1 cfg1 = build_system_prompt profiles2 cfg2"
  using assms by (simp add: build_system_prompt_def split: option.splits)

text \<open>The default profile against a copy with another description and flag.\<close>

theorem build_system_prompt_name_behaviors_witness:
  "description manipulative_coparent \<noteq> Some ''Strict'' \<and>
   build_system_prompt MODERATION_PROFILES default_config =
   build_system_prompt
     (MODERATION_PROFILES(''manipulative_coparent'' \<mapsto>
        manipulative_coparent\<lparr>description := Some ''Strict'', permissive_mode := Some False\<rparr>))
     default_config"
proof -
  let ?q = "manipulative_coparent\<lparr>description := Some ''Strict'', permissive_mode := Some False\<rparr>"
  let ?ps = "MODERATION_PROFILES(''manipulative_coparent'' \<mapsto> ?q)"
  have p: "get_moderation_profile MODERATION_PROFILES default_config = Inr manipulative_coparent"
    by (simp add: get_moderation_profile_table default_config_def)
  have q: "get_moderation_profile ?ps default_config = Inr ?q"
    by (simp add: get_moderation_profile_def default_config_def MODERATION_PROFILES_def)
  have d: "description manipulative_coparent \<noteq> Some ''Strict''"
    by (simp add: manipulative_coparent_def)
  from build_system_prompt_name_behaviors [OF p q] d show ?thesis by simp
qed

text \<open>
  C7. For a profile with a name and a behavior list, the prompt ends with the bias
  instruction; when the list is not empty the prompt holds the line "MODERATION PROFILE:"
  with the name, and for each behavior a line of its own, "- " and the behavior; when the
  list is empty the prompt is the fixed text alone, in which no profile is named.
\<close>

theorem build_system_prompt_blocks:
  assumes "get_moderation_profile profiles cfg = Inr p"
    and "name p = Some n" and "behaviors p = Some bs"
  shows "\<exists>out. build_system_prompt profiles cfg = Inr out \<and>
           suffix bias_instruction out \<and>
           (bs \<noteq> [] \<longrightarrow>
              sublist (''MODERATION PROFILE: '' @ n @ ''\<newline>'') out \<and>
              (\<forall>b \<in> set bs. sublist (''\<newline>'' @ ''- '' @ b @ ''\<newline>'') out)) \<and>
           (bs = [] \<longrightarrow>
              out = base_prompt @ examples_prompt \<and> \<not> sublist ''MODERATION PROFILE'' out)"
proof (cases "bs = []")
  case True
  with assms have "build_system_prompt profiles cfg = Inr (base_prompt @ examples_prompt)"
    by (simp add: build_system_prompt_def)
  moreover have "suffix bias_instruction (base_prompt @ examples_prompt)"
    by (simp add: examples_prompt_def suffix_def)
  ultimately show ?thesis
    using True no_profile_block by simp
next
  case False
  let ?bt = "str_join ''\<newline>'' (map behavior_line bs)"
  let ?out = "base_prompt @ profile_prompt n ?bt @ examples_prompt"
  from False assms have out: "build_system_prompt profiles cfg = Inr ?out"
    by (simp add: build_system_prompt_def)
  have bias: "suffix bias_instruction ?out"
    by (simp add: examples_prompt_def suffix_def)
  have "?out = (base_prompt @ ''\<newline>'') @ (''MODERATION PROFILE: '' @ n @ ''\<newline>'') @
      (''Watch specifically for these behavioral patterns:\<newline>'' @ ?bt @ ''\<newline>'' @
       profile_instructions @ examples_prompt)"
    by (simp add: profile_prompt_def)
  then have header: "sublist (''MODERATION PROFILE: '' @ n @ ''\<newline>'') ?out"
    unfolding sublist_def by blast
  have lines: "sublist (''\<newline>'' @ ''- '' @ b @ ''\<newline>'') ?out" if "b \<in> set bs" for b
  proof -
    from str_join_lines [OF that, of "''\<newline>''" behavior_line]
    obtain pre post where
      e: "''\<newline>'' @ ?bt @ ''\<newline>'' = pre @ ''\<newline>'' @ (''- '' @ b) @ ''\<newline>'' @ post"
      unfolding behavior_line_def by blast
    define before where
      "before = base_prompt @ ''\<newline>'' @ ''MODERATION PROFILE: '' @ n @ ''\<newline>'' @
         ''Watch specifically for these behavioral patterns:''"
    define after where "after = profile_instructions @ examples_prompt"
    have "?out = before @ (''\<newline>'' @ ?bt @ ''\<newline>'') @ after"
      by (simp add: profile_prompt_def before_def after_def)
    then have "?out = before @ (pre @ ''\<newline>'' @ (''- '' @ b) @ ''\<newline>'' @ post) @ after"
      by (simp only: e)
    then have "?out = (before @ pre) @ (''\<newline>'' @ ''- '' @ b @ ''\<newline>'') @ (post @ after)"
      by (simp only: append_assoc)
    then show ?thesis
      unfolding sublist_def by blast
  qed
  from out bias header lines False show ?thesis by blast
qed

text \<open>The two profiles of \<open>config.py\<close>.\<close>

theorem build_system_prompt_blocks_witness:
  "(\<exists>out. build_system_prompt MODERATION_PROFILES default_config = Inr out \<and>
      suffix bias_instruction out \<and>
      sublist ''MODERATION PROFILE: Manipulative Co-Parent\<newline>'' out \<and>
      sublist ''\<newline>- performative posturing without follow-through\<newline>'' out \<and>
      sublist ''\<newline>- grandstanding or virtue signaling without substance\<newline>'' out) \<and>
   build_system_prompt MODERATION_PROFILES (default_config\<lparr>MODERATION_PROFILE := ''standard''\<rparr>) =
     Inr (base_prompt @ examples_prompt)"
proof -
  have p: "get_moderation_profile MODERATION_PROFILES default_config = Inr manipulative_coparent"
    by (simp add: get_moderation_profile_table default_config_def)
  have n: "name manipulative_coparent = Some ''Manipulative Co-Parent''"
    by (simp add: manipulative_coparent_def)
  have b: "behaviors manipulative_coparent = Some
        [''performative posturing without follow-through'',
         ''crafting narratives about being good while failing to take positive action'',
         ''manipulative language designed to appear reasonable'',
         ''deflection from actual logistics to emotional manipulation'',
         ''making themselves appear as the victim or hero'',
         ''saying the right things but consistently failing to act'',
         ''using guilt, blame, or emotional pressure instead of facts'',
         ''grandstanding or virtue signaling without substance'']"
    by (simp add: manipulative_coparent_def)
  have p': "get_moderation_profile MODERATION_PROFILES
      (default_config\<lparr>MODERATION_PROFILE := ''standard''\<rparr>) = Inr standard"
    by (simp add: get_moderation_profile_table)
  have n': "name standard = Some ''Standard Moderation''"
    by (simp add: standard_def)
  have b': "behaviors standard = Some []"
    by (simp add: standard_def)
  from build_system_prompt_blocks [OF p n b] build_system_prompt_blocks [OF p' n' b']
  show ?thesis by auto
qed

section \<open>The profile store\<close>

text \<open>
  C8. With the table of \<open>config.py\<close>, \<open>get_moderation_profile\<close> raises for no profile
  name: it returns the profile stored under the name when there is one, and the
  \<open>standard\<close> profile otherwise, whose behavior list is empty and whose
  \<open>permissive_mode\<close> is true.
\<close>

theorem get_moderation_profile_lookup:
  "(\<exists>p. get_moderation_profile MODERATION_PROFILES cfg = Inr p) \<and>
   (\<forall>p. MODERATION_PROFILES (MODERATION_PROFILE cfg) = Some p \<longrightarrow>
      get_moderation_profile MODERATION_PROFILES cfg = Inr p) \<and>
   (MODERATION_PROFILES (MODERATION_PROFILE cfg) = None \<longrightarrow>
      get_moderation_profile MODERATION_PROFILES cfg = Inr standard) \<and>
   name standard = Some ''Standard Moderation'' \<and>
   behaviors standard = Some [] \<and> permissive_mode standard = Some True"
  by (simp add: get_moderation_profile_def MODERATION_PROFILES_def standard_def)

text \<open>The default name, which is a key of the table, and a name that is not.\<close>

theorem get_moderation_profile_lookup_witness:
  "MODERATION_PROFILES (MODERATION_PROFILE default_config) = Some manipulative_coparent \<and>
   get_moderation_profile MODERATION_PROFILES default_config = Inr manipulative_coparent \<and>
   MODERATION_PROFILES (MODERATION_PROFILE (default_config\<lparr>MODERATION_PROFILE := ''strict''\<rparr>)) = None \<and>
   get_moderation_profile MODERATION_PROFILES (default_config\<lparr>MODERATION_PROFILE := ''strict''\<rparr>) =
     Inr standard"
proof -
  have k: "MODERATION_PROFILES (MODERATION_PROFILE default_config) = Some manipulative_coparent"
    by (simp add: MODERATION_PROFILES_def default_config_def)
  have u: "MODERATION_PROFILES (MODERATION_PROFILE (default_config\<lparr>MODERATION_PROFILE := ''strict''\<rparr>)) = None"
    by (simp add: MODERATION_PROFILES_def)
  from get_moderation_profile_lookup [of default_config]
    get_moderation_profile_lookup [of "default_config\<lparr>MODERATION_PROFILE := ''strict''\<rparr>"] k u
  show ?thesis by simp
qed

end
